theory Spec2Isabelle
  imports Main
begin

section \<open>Data model\<close>

text \<open>
  The inventory service of \<^verbatim>\<open>src/main.js\<close> keeps one JSON file,
  \<^verbatim>\<open>inventory.json\<close>, holding an array of records, and a directory of photo
  files. A record, as \<^verbatim>\<open>app.post("/register")\<close> builds it, has the fields below.
  The field \<^verbatim>\<open>id\<close> is called \<open>item_id\<close> here, since \<open>id\<close> is HOL's identity
  function. JavaScript numbers that hold identifiers are modelled as unbounded integers; the
  two agree for magnitudes below \<open>2 ^ 53\<close>. Strings are ASCII strings. A
  \<^verbatim>\<open>photo_filename\<close> of \<^verbatim>\<open>null\<close> (or a missing one) is \<open>None\<close>.
  The second variant of the service in the repository (the one that also serves the API
  documentation) has the same handlers; it leaves \<^verbatim>\<open>created_at\<close> out of a new
  record and keeps the photos in the cache directory.
\<close>

record item =
  item_id :: int
  inventory_name :: string
  description :: string
  photo_filename :: "string option"
  created_at :: string

text \<open>
  A record as the responses of \<^verbatim>\<open>GET /inventory\<close>, \<^verbatim>\<open>GET /inventory/:id\<close>
  and \<^verbatim>\<open>POST /search\<close> show it: the record's own fields and the derived
  \<^verbatim>\<open>photo_url\<close>, which is \<^verbatim>\<open>null\<close> (\<open>None\<close>) or a string.
\<close>

record item_view = item +
  photo_url :: "string option"

text \<open>
  The text of the data file is represented by what \<^verbatim>\<open>JSON.parse\<close> makes of it: an
  array of records, or a syntax error. \<^verbatim>\<open>JSON.stringify\<close> followed by
  \<^verbatim>\<open>JSON.parse\<close> gives back the same records, as their fields are numbers, strings
  and \<^verbatim>\<open>null\<close>. A file that holds valid JSON of another shape is outside the
  model.
\<close>

datatype file_content = JsonArray "item list" | Malformed string

text \<open>
  The disk: the data file, which may be absent, and the names of the files in the photo
  directory.
\<close>

record disk =
  data_file :: "file_content option"
  photo_dir :: "string set"

datatype fs_error = ENOENT | SyntaxError

text \<open>
  What the platform decides during one request: whether \<^verbatim>\<open>fs.writeFile\<close> succeeds
  (a failed write leaves the file as it was), the value of \<^verbatim>\<open>Date.now()\<close>, of
  \<^verbatim>\<open>Math.round(Math.random() * 1e9)\<close> and of
  \<^verbatim>\<open>new Date().toISOString()\<close>.
\<close>

record env =
  write_ok :: bool
  date_now :: nat
  random_1e9 :: nat
  iso_now :: string

section \<open>Platform functions\<close>

subsection \<open>Number to string\<close>

definition digit_char :: "nat \<Rightarrow> char" where
  "digit_char n = ''0123456789'' ! n"

fun show_nat :: "nat \<Rightarrow> string" where
  "show_nat n = (if n < 10 then [digit_char n] else show_nat (n div 10) @ [digit_char (n mod 10)])"

definition show_int :: "int \<Rightarrow> string" where
  "show_int i = (if i < 0 then CHR ''-'' # show_nat (nat (- i)) else show_nat (nat i))"

subsection \<open>parseInt\<close>

text \<open>
  \<^verbatim>\<open>parseInt(s)\<close> with no radix: leading white space is dropped, then an optional
  sign, then an optional \<^verbatim>\<open>0x\<close> or \<^verbatim>\<open>0X\<close> (which selects radix 16); the longest
  run of digits of the radix that follows is the number, whatever comes after it. With no
  digit there the result is \<^verbatim>\<open>NaN\<close>, modelled as \<open>None\<close>: \<^verbatim>\<open>NaN === x\<close> is
  false for every \<open>x\<close>.
\<close>

definition isWhiteSpace :: "char \<Rightarrow> bool" where
  "isWhiteSpace c = (c \<in> set [CHR 0x09, CHR 0x0A, CHR 0x0B, CHR 0x0C, CHR 0x0D, CHR 0x20])"

definition digit_value :: "char \<Rightarrow> nat option" where
  "digit_value c =
     (let k = (of_char c :: nat) in
      if 48 \<le> k \<and> k \<le> 57 then Some (k - 48)
      else if 97 \<le> k \<and> k \<le> 122 then Some (k - 87)
      else if 65 \<le> k \<and> k \<le> 90 then Some (k - 55)
      else None)"

definition is_digit :: "nat \<Rightarrow> char \<Rightarrow> bool" where
  "is_digit radix c = (case digit_value c of None \<Rightarrow> False | Some v \<Rightarrow> v < radix)"

definition digits_value :: "nat \<Rightarrow> string \<Rightarrow> nat" where
  "digits_value radix z = foldl (\<lambda>acc c. acc * radix + the (digit_value c)) 0 z"

definition parseInt :: "string \<Rightarrow> int option" where
  "parseInt s =
     (let s1 = dropWhile isWhiteSpace s;
          negative = (s1 \<noteq> [] \<and> hd s1 = CHR ''-'');
          s2 = (if s1 \<noteq> [] \<and> (hd s1 = CHR ''-'' \<or> hd s1 = CHR ''+'') then tl s1 else s1);
          hex = (length s2 \<ge> 2 \<and> hd s2 = CHR ''0'' \<and> (s2 ! 1 = CHR ''x'' \<or> s2 ! 1 = CHR ''X''));
          radix = (if hex then 16 else 10);
          s3 = (if hex then drop 2 s2 else s2);
          z = takeWhile (is_digit radix) s3
      in if z = [] then None
         else Some ((if negative then - 1 else 1) * int (digits_value radix z)))"

definition startsWith :: "string \<Rightarrow> string \<Rightarrow> bool" where
  "startsWith s p = (take (length p) s = p)"

subsection \<open>Array search\<close>

text \<open>
  \<^verbatim>\<open>Array.prototype.find\<close> is \<^const>\<open>List.find\<close>;
  \<^verbatim>\<open>findIndex\<close> returns the first index, \<open>None\<close> standing for \<open>-1\<close>.
\<close>

fun findIndex :: "('a \<Rightarrow> bool) \<Rightarrow> 'a list \<Rightarrow> nat option" where
  "findIndex P [] = None"
| "findIndex P (x # xs) =
     (if P x then Some 0 else (case findIndex P xs of None \<Rightarrow> None | Some i \<Rightarrow> Some (Suc i)))"

text \<open>\<^verbatim>\<open>xs.splice(i, 1)\<close> removes the element at index \<open>i\<close>.\<close>

definition splice1 :: "nat \<Rightarrow> 'a list \<Rightarrow> 'a list" where
  "splice1 i xs = take i xs @ drop (Suc i) xs"

section \<open>Record store\<close>

definition fs_access :: "disk \<Rightarrow> fs_error + unit" where
  "fs_access d = (case data_file d of None \<Rightarrow> Inl ENOENT | Some c \<Rightarrow> Inr ())"

definition fs_readFile :: "disk \<Rightarrow> fs_error + file_content" where
  "fs_readFile d = (case data_file d of None \<Rightarrow> Inl ENOENT | Some c \<Rightarrow> Inr c)"

definition JSON_parse :: "file_content \<Rightarrow> fs_error + item list" where
  "JSON_parse c = (case c of JsonArray xs \<Rightarrow> Inr xs | Malformed t \<Rightarrow> Inl SyntaxError)"

text \<open>The \<^verbatim>\<open>try\<close> block of \<^verbatim>\<open>readInventory\<close>: any failure gives \<open>[]\<close>.\<close>

definition readInventory :: "disk \<Rightarrow> item list" where
  "readInventory d =
     (case fs_access d of
        Inl e \<Rightarrow> []
      | Inr u \<Rightarrow>
          (case fs_readFile d of
             Inl e \<Rightarrow> []
           | Inr txt \<Rightarrow> (case JSON_parse txt of Inl e \<Rightarrow> [] | Inr inventory \<Rightarrow> inventory)))"

definition getNextId :: "disk \<Rightarrow> int" where
  "getNextId d =
     (let inventory = readInventory d in
      if length inventory = 0 then 1 else Max (set (map item_id inventory)) + 1)"

definition writeInventory :: "env \<Rightarrow> item list \<Rightarrow> disk \<Rightarrow> disk \<times> bool" where
  "writeInventory e data d =
     (if write_ok e then (d\<lparr>data_file := Some (JsonArray data)\<rparr>, True) else (d, False))"

section \<open>Photo upload\<close>

text \<open>
  A file part of a multipart request: the form field it came in, the media type
  (\<^verbatim>\<open>type/subtype\<close>, without parameters) of its declared content type as the client
  sent it, its size in bytes, and \<open>extname\<close>, the value of
  \<^verbatim>\<open>path.extname(file.originalname)\<close>.
\<close>

record upload =
  fieldname :: string
  content_type :: string
  file_size :: nat
  extname :: string

text \<open>\<^verbatim>\<open>String.prototype.toLowerCase\<close> on an ASCII string.\<close>

definition toLowerCase :: "string \<Rightarrow> string" where
  "toLowerCase s =
     map (\<lambda>c. case map_of (zip ''ABCDEFGHIJKLMNOPQRSTUVWXYZ'' ''abcdefghijklmnopqrstuvwxyz'') c of
                 None \<Rightarrow> c
               | Some l \<Rightarrow> l) s"

text \<open>
  \<^verbatim>\<open>file.mimetype\<close>, as the upload middleware hands it to the file filter: the
  multipart parser puts the declared media type in lower case first, so a part declared
  \<^verbatim>\<open>IMAGE/PNG\<close> reaches the filter as \<^verbatim>\<open>image/png\<close>.
\<close>

definition mimetype :: "upload \<Rightarrow> string" where
  "mimetype f = toLowerCase (content_type f)"

datatype js_error = MulterError string | Error string

definition uniqueName :: "env \<Rightarrow> upload \<Rightarrow> string" where
  "uniqueName e f = show_nat (date_now e) @ ''-'' @ show_nat (random_1e9 e) @ extname f"

definition fileFilter :: "upload \<Rightarrow> js_error + bool" where
  "fileFilter f =
     (if startsWith (mimetype f) ''image/'' then Inr True
      else Inl (Error ''Only images are allowed''))"

text \<open>
  \<^verbatim>\<open>upload.single("photo")\<close>: a file in another field is refused, then the file filter
  runs, then the file is streamed to the photo directory under its generated name unless it
  grows beyond \<^verbatim>\<open>limits.fileSize\<close>. An error is handed to \<^verbatim>\<open>next\<close> (\<open>Inl\<close>);
  otherwise \<^verbatim>\<open>req.file\<close> is set (\<open>Some\<close> of the stored name) or left undefined.
\<close>

definition fileSize_limit :: nat where
  "fileSize_limit = 5 * 1024 * 1024"

definition upload_single :: "upload option \<Rightarrow> env \<Rightarrow> disk \<Rightarrow> disk \<times> (js_error + string option)" where
  "upload_single part e d =
     (case part of
        None \<Rightarrow> (d, Inr None)
      | Some f \<Rightarrow>
          if fieldname f \<noteq> ''photo'' then (d, Inl (MulterError ''LIMIT_UNEXPECTED_FILE''))
          else (case fileFilter f of
                  Inl err \<Rightarrow> (d, Inl err)
                | Inr keep \<Rightarrow>
                    if file_size f > fileSize_limit then (d, Inl (MulterError ''LIMIT_FILE_SIZE''))
                    else (d\<lparr>photo_dir := insert (uniqueName e f) (photo_dir d)\<rparr>,
                          Inr (Some (uniqueName e f)))))"

text \<open>
  \<^verbatim>\<open>try { await fs.access(p); await fs.unlink(p); } catch {}\<close>: the file is removed when
  it is there, and nothing is reported when it is not.
\<close>

definition unlink_quietly :: "string \<Rightarrow> disk \<Rightarrow> disk" where
  "unlink_quietly name d = d\<lparr>photo_dir := photo_dir d - {name}\<rparr>"

section \<open>Requests and responses\<close>

text \<open>
  The parsed body of a request; \<open>None\<close> is a field that is \<^verbatim>\<open>undefined\<close>. The fields
  are strings, as the forms send them.
\<close>

record req_body =
  body_inventory_name :: "string option"
  body_description :: "string option"
  body_id :: "string option"
  body_has_photo :: "string option"

datatype http_method = GET | POST | PUT | DELETE | PATCH

text \<open>A request: its method, the segments of its path, its parsed body and its file part.\<close>

record request =
  meth :: http_method
  segs :: "string list"
  body :: req_body
  file_part :: "upload option"

datatype content =
    ErrorJson string
  | ItemJson item_view
  | ResultJson string item
  | ListJson "item_view list"
  | SendFile string
  | DefaultErrorPage

record response =
  status :: nat
  content :: content

text \<open>JavaScript truthiness of a string that may be undefined or null.\<close>

definition truthy :: "string option \<Rightarrow> bool" where
  "truthy v = (case v of None \<Rightarrow> False | Some s \<Rightarrow> s \<noteq> [])"

definition photo_url_of :: "item \<Rightarrow> string option" where
  "photo_url_of it =
     (if truthy (photo_filename it) then Some (''/inventory/'' @ show_int (item_id it) @ ''/photo'')
      else None)"

definition with_photo_url :: "item \<Rightarrow> string option \<Rightarrow> item_view" where
  "with_photo_url it url =
     \<lparr>item_id = item_id it, inventory_name = inventory_name it, description = description it,
      photo_filename = photo_filename it, created_at = created_at it, photo_url = url\<rparr>"

definition same_id :: "string \<Rightarrow> item \<Rightarrow> bool" where
  "same_id ident it = (Some (item_id it) = parseInt ident)"

section \<open>Route handlers\<close>

definition post_register :: "req_body \<Rightarrow> string option \<Rightarrow> env \<Rightarrow> disk \<Rightarrow> disk \<times> response" where
  "post_register b req_file e d =
     (if \<not> truthy (body_inventory_name b)
      then (d, \<lparr>status = 400, content = ErrorJson ''Name is required''\<rparr>)
      else
        let inventory = readInventory d;
            newItem = \<lparr>item_id = getNextId d,
                       inventory_name = the (body_inventory_name b),
                       description = (if truthy (body_description b) then the (body_description b) else []),
                       photo_filename = req_file,
                       created_at = iso_now e\<rparr>;
            inventory1 = inventory @ [newItem]
        in (case writeInventory e inventory1 d of
              (d1, ok) \<Rightarrow>
                if \<not> ok then (d1, \<lparr>status = 500, content = ErrorJson ''Data save error''\<rparr>)
                else (d1, \<lparr>status = 201,
                           content = ResultJson ''Device registered successfully'' newItem\<rparr>)))"

definition get_inventory :: "env \<Rightarrow> disk \<Rightarrow> disk \<times> response" where
  "get_inventory e d =
     (let inventory = readInventory d;
          inventoryWithPhotoUrls = map (\<lambda>it. with_photo_url it (photo_url_of it)) inventory
      in (d, \<lparr>status = 200, content = ListJson inventoryWithPhotoUrls\<rparr>))"

definition get_inventory_id :: "string \<Rightarrow> env \<Rightarrow> disk \<Rightarrow> disk \<times> response" where
  "get_inventory_id ident e d =
     (let inventory = readInventory d in
      case find (same_id ident) inventory of
        None \<Rightarrow> (d, \<lparr>status = 404, content = ErrorJson ''Device not found''\<rparr>)
      | Some it \<Rightarrow> (d, \<lparr>status = 200, content = ItemJson (with_photo_url it (photo_url_of it))\<rparr>))"

definition put_inventory_id :: "string \<Rightarrow> req_body \<Rightarrow> env \<Rightarrow> disk \<Rightarrow> disk \<times> response" where
  "put_inventory_id ident b e d =
     (let inventory = readInventory d in
      case findIndex (same_id ident) inventory of
        None \<Rightarrow> (d, \<lparr>status = 404, content = ErrorJson ''Device not found''\<rparr>)
      | Some itemIndex \<Rightarrow>
          let inventory1 =
                (case body_inventory_name b of
                   None \<Rightarrow> inventory
                 | Some n \<Rightarrow> inventory[itemIndex := (inventory ! itemIndex)\<lparr>inventory_name := n\<rparr>]);
              inventory2 =
                (case body_description b of
                   None \<Rightarrow> inventory1
                 | Some t \<Rightarrow> inventory1[itemIndex := (inventory1 ! itemIndex)\<lparr>description := t\<rparr>])
          in (case writeInventory e inventory2 d of
                (d1, ok) \<Rightarrow>
                  if \<not> ok then (d1, \<lparr>status = 500, content = ErrorJson ''Data save error''\<rparr>)
                  else (d1, \<lparr>status = 200,
                             content = ResultJson ''Device updated successfully''
                                         (inventory2 ! itemIndex)\<rparr>)))"

definition get_inventory_id_photo :: "string \<Rightarrow> env \<Rightarrow> disk \<Rightarrow> disk \<times> response" where
  "get_inventory_id_photo ident e d =
     (let inventory = readInventory d in
      case find (same_id ident) inventory of
        None \<Rightarrow> (d, \<lparr>status = 404, content = ErrorJson ''Photo not found''\<rparr>)
      | Some it \<Rightarrow>
          if \<not> truthy (photo_filename it)
          then (d, \<lparr>status = 404, content = ErrorJson ''Photo not found''\<rparr>)
          else if the (photo_filename it) \<in> photo_dir d
          then (d, \<lparr>status = 200, content = SendFile (the (photo_filename it))\<rparr>)
          else (d, \<lparr>status = 404, content = ErrorJson ''Photo file not found''\<rparr>))"

definition put_inventory_id_photo :: "string \<Rightarrow> string option \<Rightarrow> env \<Rightarrow> disk \<Rightarrow> disk \<times> response" where
  "put_inventory_id_photo ident req_file e d =
     (case req_file of
        None \<Rightarrow> (d, \<lparr>status = 400, content = ErrorJson ''No photo provided''\<rparr>)
      | Some filename \<Rightarrow>
          let inventory = readInventory d in
          (case findIndex (same_id ident) inventory of
             None \<Rightarrow> (d, \<lparr>status = 404, content = ErrorJson ''Device not found''\<rparr>)
           | Some itemIndex \<Rightarrow>
               let oldPhoto = photo_filename (inventory ! itemIndex);
                   d1 = (if truthy oldPhoto then unlink_quietly (the oldPhoto) d else d);
                   inventory1 = inventory[itemIndex := (inventory ! itemIndex)\<lparr>photo_filename := Some filename\<rparr>]
               in (case writeInventory e inventory1 d1 of
                     (d2, ok) \<Rightarrow>
                       if \<not> ok then (d2, \<lparr>status = 500, content = ErrorJson ''Data save error''\<rparr>)
                       else (d2, \<lparr>status = 200,
                                  content = ResultJson ''Photo updated successfully''
                                              (inventory1 ! itemIndex)\<rparr>))))"

definition delete_inventory_id :: "string \<Rightarrow> env \<Rightarrow> disk \<Rightarrow> disk \<times> response" where
  "delete_inventory_id ident e d =
     (let inventory = readInventory d in
      case findIndex (same_id ident) inventory of
        None \<Rightarrow> (d, \<lparr>status = 404, content = ErrorJson ''Device not found''\<rparr>)
      | Some itemIndex \<Rightarrow>
          let deletedItem = inventory ! itemIndex;
              d1 = (if truthy (photo_filename deletedItem)
                    then unlink_quietly (the (photo_filename deletedItem)) d else d);
              inventory1 = splice1 itemIndex inventory
          in (case writeInventory e inventory1 d1 of
                (d2, ok) \<Rightarrow>
                  if \<not> ok then (d2, \<lparr>status = 500, content = ErrorJson ''Data save error''\<rparr>)
                  else (d2, \<lparr>status = 200,
                             content = ResultJson ''Device deleted successfully'' deletedItem\<rparr>)))"

definition photo_marker :: "item \<Rightarrow> string" where
  "photo_marker it = CHR 0x0A # ''[Photo: /inventory/'' @ show_int (item_id it) @ ''/photo]''"

definition post_search :: "req_body \<Rightarrow> env \<Rightarrow> disk \<Rightarrow> disk \<times> response" where
  "post_search b e d =
     (if \<not> truthy (body_id b) then (d, \<lparr>status = 400, content = ErrorJson ''ID is required''\<rparr>)
      else
        let inventory = readInventory d in
        case find (same_id (the (body_id b))) inventory of
          None \<Rightarrow> (d, \<lparr>status = 404, content = ErrorJson ''Device not found''\<rparr>)
        | Some it \<Rightarrow>
            let result = with_photo_url it None;
                result1 = (if body_has_photo b = Some ''true'' \<and> truthy (photo_filename it)
                           then result\<lparr>description := description result @ photo_marker it\<rparr>
                           else result);
                result2 = result1\<lparr>photo_url := photo_url_of it\<rparr>
            in (d, \<lparr>status = 200, content = ItemJson result2\<rparr>))"

section \<open>The application: middleware stack and dispatch\<close>

text \<open>
  Express keeps the middleware and routes of the application in one stack, in the order of
  the \<^verbatim>\<open>app.use\<close> and \<^verbatim>\<open>app.get/post/put/delete\<close> calls, and walks it forward
  only. A request goes to the first route that matches its method and path; error-handling
  middleware (a function of four arguments) is passed over. When a route hands an error to
  \<^verbatim>\<open>next\<close>, the walk goes on from the layer after that route and stops only at
  error-handling middleware; when none is left, the default handler answers with status 500
  (the error has no \<^verbatim>\<open>status\<close> of its own). Body parsing and static files, which come
  first in the stack, are not modelled: a request arrives here with its body parsed. Path
  segments are compared as they are.
\<close>

datatype seg = Lit string | Param

fun match_path :: "seg list \<Rightarrow> string list \<Rightarrow> bool" where
  "match_path [] [] = True"
| "match_path (Lit l # ps) (s # ss) = (l = s \<and> match_path ps ss)"
| "match_path (Param # ps) (s # ss) = (s \<noteq> [] \<and> match_path ps ss)"
| "match_path ps ss = False"

datatype route_name =
    RegisterForm | SearchForm | Register | Inventory | InventoryId | PutInventoryId
  | InventoryIdPhoto | PutInventoryIdPhoto | DeleteInventoryId | Search

datatype layer = UseError | Route http_method "seg list" route_name | UseAll

text \<open>The error-handling middleware of the source; \<open>None\<close> is \<^verbatim>\<open>next(error)\<close>.\<close>

definition multer_error_middleware :: "js_error \<Rightarrow> response option" where
  "multer_error_middleware err =
     (case err of
        MulterError code \<Rightarrow>
          if code = ''LIMIT_FILE_SIZE''
          then Some \<lparr>status = 400, content = ErrorJson ''File too large. Maximum 5MB''\<rparr>
          else None
      | Error msg \<Rightarrow> None)"

definition app_stack :: "layer list" where
  "app_stack =
     [UseError,
      Route GET [Lit ''RegisterForm.html''] RegisterForm,
      Route GET [Lit ''SearchForm.html''] SearchForm,
      Route POST [Lit ''register''] Register,
      Route GET [Lit ''inventory''] Inventory,
      Route GET [Lit ''inventory'', Param] InventoryId,
      Route PUT [Lit ''inventory'', Param] PutInventoryId,
      Route GET [Lit ''inventory'', Param, Lit ''photo''] InventoryIdPhoto,
      Route PUT [Lit ''inventory'', Param, Lit ''photo''] PutInventoryIdPhoto,
      Route DELETE [Lit ''inventory'', Param] DeleteInventoryId,
      Route POST [Lit ''search''] Search,
      UseAll]"

definition param_id :: "request \<Rightarrow> string" where
  "param_id req = segs req ! 1"

fun run_route :: "route_name \<Rightarrow> request \<Rightarrow> env \<Rightarrow> disk \<Rightarrow> disk \<times> (js_error + response)" where
  "run_route RegisterForm req e d = (d, Inr \<lparr>status = 200, content = SendFile ''RegisterForm.html''\<rparr>)"
| "run_route SearchForm req e d = (d, Inr \<lparr>status = 200, content = SendFile ''SearchForm.html''\<rparr>)"
| "run_route Register req e d =
     (case upload_single (file_part req) e d of
        (d1, Inl err) \<Rightarrow> (d1, Inl err)
      | (d1, Inr req_file) \<Rightarrow> (case post_register (body req) req_file e d1 of (d2, r) \<Rightarrow> (d2, Inr r)))"
| "run_route Inventory req e d = (case get_inventory e d of (d1, r) \<Rightarrow> (d1, Inr r))"
| "run_route InventoryId req e d = (case get_inventory_id (param_id req) e d of (d1, r) \<Rightarrow> (d1, Inr r))"
| "run_route PutInventoryId req e d =
     (case put_inventory_id (param_id req) (body req) e d of (d1, r) \<Rightarrow> (d1, Inr r))"
| "run_route InventoryIdPhoto req e d =
     (case get_inventory_id_photo (param_id req) e d of (d1, r) \<Rightarrow> (d1, Inr r))"
| "run_route PutInventoryIdPhoto req e d =
     (case upload_single (file_part req) e d of
        (d1, Inl err) \<Rightarrow> (d1, Inl err)
      | (d1, Inr req_file) \<Rightarrow>
          (case put_inventory_id_photo (param_id req) req_file e d1 of (d2, r) \<Rightarrow> (d2, Inr r)))"
| "run_route DeleteInventoryId req e d =
     (case delete_inventory_id (param_id req) e d of (d1, r) \<Rightarrow> (d1, Inr r))"
| "run_route Search req e d = (case post_search (body req) e d of (d1, r) \<Rightarrow> (d1, Inr r))"

fun next_error :: "layer list \<Rightarrow> js_error \<Rightarrow> response" where
  "next_error [] err = \<lparr>status = 500, content = DefaultErrorPage\<rparr>"
| "next_error (UseError # ls) err =
     (case multer_error_middleware err of Some r \<Rightarrow> r | None \<Rightarrow> next_error ls err)"
| "next_error (l # ls) err = next_error ls err"

fun dispatch :: "layer list \<Rightarrow> request \<Rightarrow> env \<Rightarrow> disk \<Rightarrow> disk \<times> response" where
  "dispatch [] req e d = (d, \<lparr>status = 404, content = DefaultErrorPage\<rparr>)"
| "dispatch (UseError # ls) req e d = dispatch ls req e d"
| "dispatch (Route m p r # ls) req e d =
     (if meth req = m \<and> match_path p (segs req)
      then (case run_route r req e d of
              (d1, Inr resp) \<Rightarrow> (d1, resp)
            | (d1, Inl err) \<Rightarrow> (d1, next_error ls err))
      else dispatch ls req e d)"
| "dispatch (UseAll # ls) req e d = (d, \<lparr>status = 405, content = ErrorJson ''Method Not Allowed''\<rparr>)"

definition app :: "request \<Rightarrow> env \<Rightarrow> disk \<Rightarrow> disk \<times> response" where
  "app req e d = dispatch app_stack req e d"

text \<open>
  A run of the service: the requests are served one after the other, each on the disk the
  one before it left. The result is the final disk and the responses in order.
\<close>

fun serve :: "disk \<Rightarrow> (request \<times> env) list \<Rightarrow> disk \<times> response list" where
  "serve d [] = (d, [])"
| "serve d ((req, e) # rest) =
     (case app req e d of
        (d1, r) \<Rightarrow> (case serve d1 rest of (d2, rs) \<Rightarrow> (d2, r # rs)))"

section \<open>Requests of the interface\<close>

definition empty_body :: req_body where
  "empty_body =
     \<lparr>body_inventory_name = None, body_description = None, body_id = None, body_has_photo = None\<rparr>"

definition name_only :: "string \<Rightarrow> req_body" where
  "name_only n = empty_body\<lparr>body_inventory_name := Some n\<rparr>"

definition register_request :: "req_body \<Rightarrow> upload option \<Rightarrow> request" where
  "register_request b p = \<lparr>meth = POST, segs = [''register''], body = b, file_part = p\<rparr>"

definition list_request :: request where
  "list_request = \<lparr>meth = GET, segs = [''inventory''], body = empty_body, file_part = None\<rparr>"

definition get_request :: "string \<Rightarrow> request" where
  "get_request ident =
     \<lparr>meth = GET, segs = [''inventory'', ident], body = empty_body, file_part = None\<rparr>"

definition update_request :: "string \<Rightarrow> req_body \<Rightarrow> request" where
  "update_request ident b = \<lparr>meth = PUT, segs = [''inventory'', ident], body = b, file_part = None\<rparr>"

definition photo_request :: "string \<Rightarrow> request" where
  "photo_request ident =
     \<lparr>meth = GET, segs = [''inventory'', ident, ''photo''], body = empty_body, file_part = None\<rparr>"

definition replace_photo_request :: "string \<Rightarrow> upload option \<Rightarrow> request" where
  "replace_photo_request ident p =
     \<lparr>meth = PUT, segs = [''inventory'', ident, ''photo''], body = empty_body, file_part = p\<rparr>"

definition delete_request :: "string \<Rightarrow> request" where
  "delete_request ident =
     \<lparr>meth = DELETE, segs = [''inventory'', ident], body = empty_body, file_part = None\<rparr>"

definition search_request :: "req_body \<Rightarrow> request" where
  "search_request b = \<lparr>meth = POST, segs = [''search''], body = b, file_part = None\<rparr>"

text \<open>What a response reports: the record a registration created, the record a deletion removed.\<close>

definition registered :: "response \<Rightarrow> item option" where
  "registered r =
     (case content r of
        ResultJson msg it \<Rightarrow> if status r = 201 then Some it else None
      | _ \<Rightarrow> None)"

definition deleted :: "response \<Rightarrow> item option" where
  "deleted r =
     (case content r of
        ResultJson msg it \<Rightarrow>
          if status r = 200 \<and> msg = ''Device deleted successfully'' then Some it else None
      | _ \<Rightarrow> None)"

text \<open>
  \<open>no_reuse dead rs\<close>: in the responses \<open>rs\<close>, no registration reports an identifier that
  is in \<open>dead\<close> or that an earlier deletion of \<open>rs\<close> reported.
\<close>

fun no_reuse :: "int list \<Rightarrow> response list \<Rightarrow> bool" where
  "no_reuse dead [] = True"
| "no_reuse dead (r # rs) =
     (case registered r of
        Some it \<Rightarrow> item_id it \<notin> set dead \<and> no_reuse dead rs
      | None \<Rightarrow>
          (case deleted r of
             Some it \<Rightarrow> no_reuse (item_id it # dead) rs
           | None \<Rightarrow> no_reuse dead rs))"

text \<open>The state of a store that the service itself has written.\<close>

definition store_ok :: "disk \<Rightarrow> bool" where
  "store_ok d =
     (distinct (map item_id (readInventory d)) \<and>
      list_all (\<lambda>it. photo_filename it \<noteq> Some []) (readInventory d))"

text \<open>
  The update of a record as the specification words it: a field that is present in the body
  overwrites the record's field, a field that is absent leaves it as it was.
\<close>

definition spec_update :: "req_body \<Rightarrow> item \<Rightarrow> item" where
  "spec_update b it =
     it\<lparr>inventory_name := (case body_inventory_name b of None \<Rightarrow> inventory_name it | Some n \<Rightarrow> n),
        description := (case body_description b of None \<Rightarrow> description it | Some t \<Rightarrow> t)\<rparr>"

subsection \<open>Sample values\<close>

definition sample_env :: "bool \<Rightarrow> env" where
  "sample_env ok =
     \<lparr>write_ok = ok, date_now = 1700000000000, random_1e9 = 42,
      iso_now = ''2025-01-01T00:00:00.000Z''\<rparr>"

definition empty_disk :: disk where
  "empty_disk = \<lparr>data_file = None, photo_dir = {}\<rparr>"

definition sample_upload :: "string \<Rightarrow> nat \<Rightarrow> upload" where
  "sample_upload mime n =
     \<lparr>fieldname = ''photo'', content_type = mime, file_size = n, extname = ''.png''\<rparr>"

definition laptop :: item where
  "laptop =
     \<lparr>item_id = 1, inventory_name = ''Laptop'', description = ''13 inch'',
      photo_filename = Some ''1700000000000-42.png'', created_at = ''2025-01-01T00:00:00.000Z''\<rparr>"

definition phone :: item where
  "phone =
     \<lparr>item_id = 2, inventory_name = ''Phone'', description = [],
      photo_filename = None, created_at = ''2025-01-02T00:00:00.000Z''\<rparr>"

definition sample_disk :: disk where
  "sample_disk =
     \<lparr>data_file = Some (JsonArray [laptop, phone]), photo_dir = {''1700000000000-42.png''}\<rparr>"

definition sample_trace :: "(request \<times> env) list" where
  "sample_trace =
     [(register_request (name_only ''Laptop'') (Some (sample_upload ''image/png'' 2048)),
       sample_env True),
      (register_request (name_only ''Phone'') None, sample_env True)]"

definition reuse_trace :: "(request \<times> env) list" where
  "reuse_trace =
     [(register_request (name_only ''Laptop'') None, sample_env True),
      (delete_request ''1'', sample_env True),
      (register_request (name_only ''Phone'') None, sample_env True)]"

section \<open>Properties of the record store\<close>

lemma readInventory_cases:
  "readInventory d = (case data_file d of Some (JsonArray xs) \<Rightarrow> xs | _ \<Rightarrow> [])"
  by (simp add: readInventory_def fs_access_def fs_readFile_def JSON_parse_def
      split: option.splits file_content.splits)

declare show_nat.simps [simp del]

lemma readInventory_written [simp]:
  "readInventory (d\<lparr>data_file := Some (JsonArray xs)\<rparr>) = xs"
  by (simp add: readInventory_cases)

lemma readInventory_photo_dir [simp]:
  "readInventory (d\<lparr>photo_dir := p\<rparr>) = readInventory d"
  by (simp add: readInventory_cases)

lemma readInventory_unlink [simp]: "readInventory (unlink_quietly n d) = readInventory d"
  by (simp add: unlink_quietly_def)

lemma findIndex_None: "(findIndex P xs = None) = (\<forall>x \<in> set xs. \<not> P x)"
  by (induction xs) (auto split: option.splits)

lemma findIndex_Some:
  "findIndex P xs = Some i \<Longrightarrow> i < length xs \<and> P (xs ! i) \<and> (\<forall>j < i. \<not> P (xs ! j))"
proof (induction xs arbitrary: i)
  case Nil
  then show ?case by simp
next
  case (Cons x xs)
  show ?case
  proof (cases "P x")
    case True
    with Cons.prems show ?thesis by simp
  next
    case False
    with Cons.prems obtain k where k: "findIndex P xs = Some k" "i = Suc k"
      by (auto split: option.splits)
    from Cons.IH [OF k(1)] False k(2) show ?thesis
      by (auto simp: nth_Cons split: nat.splits)
  qed
qed

lemma find_findIndex:
  "find P xs = (case findIndex P xs of None \<Rightarrow> None | Some i \<Rightarrow> Some (xs ! i))"
  by (induction xs) (auto split: option.splits)

lemma app_register:
  "app (register_request b p) e d =
     (case upload_single p e d of
        (d1, Inl err) \<Rightarrow> (d1, \<lparr>status = 500, content = DefaultErrorPage\<rparr>)
      | (d1, Inr f) \<Rightarrow> post_register b f e d1)"
  by (simp add: app_def app_stack_def register_request_def multer_error_middleware_def split: prod.splits sum.splits)

lemma app_list: "app list_request e d = get_inventory e d"
  by (simp add: app_def app_stack_def list_request_def split: prod.splits)

lemma app_get: "ident \<noteq> [] \<Longrightarrow> app (get_request ident) e d = get_inventory_id ident e d"
  by (simp add: app_def app_stack_def get_request_def param_id_def split: prod.splits)

lemma app_update: "ident \<noteq> [] \<Longrightarrow> app (update_request ident b) e d = put_inventory_id ident b e d"
  by (simp add: app_def app_stack_def update_request_def param_id_def split: prod.splits)

lemma app_photo: "ident \<noteq> [] \<Longrightarrow> app (photo_request ident) e d = get_inventory_id_photo ident e d"
  by (simp add: app_def app_stack_def photo_request_def param_id_def split: prod.splits)

lemma app_replace_photo:
  "ident \<noteq> [] \<Longrightarrow> app (replace_photo_request ident p) e d =
     (case upload_single p e d of
        (d1, Inl err) \<Rightarrow> (d1, \<lparr>status = 500, content = DefaultErrorPage\<rparr>)
      | (d1, Inr f) \<Rightarrow> put_inventory_id_photo ident f e d1)"
  by (simp add: app_def app_stack_def replace_photo_request_def param_id_def multer_error_middleware_def split: prod.splits sum.splits)

lemma app_delete: "ident \<noteq> [] \<Longrightarrow> app (delete_request ident) e d = delete_inventory_id ident e d"
  by (simp add: app_def app_stack_def delete_request_def param_id_def split: prod.splits)

lemma app_search: "app (search_request b) e d = post_search b e d"
  by (simp add: app_def app_stack_def search_request_def split: prod.splits)

lemma upload_single_data_file [simp]:
  "data_file (fst (upload_single p e d)) = data_file d"
  by (simp add: upload_single_def split: option.splits sum.splits)

lemma upload_single_readInventory [simp]:
  "readInventory (fst (upload_single p e d)) = readInventory d"
  by (simp add: readInventory_cases)

lemma uniqueName_nonempty: "uniqueName e f \<noteq> []"
  by (simp add: uniqueName_def)

lemma upload_single_name:
  "snd (upload_single p e d) = Inr (Some f) \<Longrightarrow> f \<noteq> []"
  by (auto simp: upload_single_def uniqueName_nonempty split: option.splits sum.splits if_splits)

lemma writeInventory_fail: "\<not> write_ok e \<Longrightarrow> writeInventory e xs d = (d, False)"
  by (simp add: writeInventory_def)

lemma writeInventory_ok:
  "write_ok e \<Longrightarrow> writeInventory e xs d = (d\<lparr>data_file := Some (JsonArray xs)\<rparr>, True)"
  by (simp add: writeInventory_def)

lemma unlink_quietly_data_file [simp]: "data_file (unlink_quietly n d) = data_file d"
  by (simp add: unlink_quietly_def)

lemma read_only_handlers:
  "fst (get_inventory e d) = d"
  "fst (get_inventory_id ident e d) = d"
  "fst (get_inventory_id_photo ident e d) = d"
  "fst (post_search b e d) = d"
  by (simp_all add: get_inventory_def get_inventory_id_def get_inventory_id_photo_def
      post_search_def Let_def split: option.splits)

lemma failed_save_data_file:
  assumes "\<not> write_ok e"
  shows "data_file (fst (post_register b f e d)) = data_file d"
    and "data_file (fst (put_inventory_id ident b e d)) = data_file d"
    and "data_file (fst (put_inventory_id_photo ident f e d)) = data_file d"
    and "data_file (fst (delete_inventory_id ident e d)) = data_file d"
  using assms
  by (simp_all add: post_register_def put_inventory_id_def put_inventory_id_photo_def
      delete_inventory_id_def writeInventory_fail Let_def split: option.splits)

text \<open>The disk a route leaves, by cases of the route.\<close>

lemma run_route_disk:
  "fst (run_route r req e d) =
     (case r of
        Register \<Rightarrow>
          (case snd (upload_single (file_part req) e d) of
             Inl err \<Rightarrow> fst (upload_single (file_part req) e d)
           | Inr f \<Rightarrow> fst (post_register (body req) f e (fst (upload_single (file_part req) e d))))
      | PutInventoryId \<Rightarrow> fst (put_inventory_id (param_id req) (body req) e d)
      | PutInventoryIdPhoto \<Rightarrow>
          (case snd (upload_single (file_part req) e d) of
             Inl err \<Rightarrow> fst (upload_single (file_part req) e d)
           | Inr f \<Rightarrow> fst (put_inventory_id_photo (param_id req) f e (fst (upload_single (file_part req) e d))))
      | DeleteInventoryId \<Rightarrow> fst (delete_inventory_id (param_id req) e d)
      | _ \<Rightarrow> d)"
  by (cases r) (simp_all add: read_only_handlers case_prod_beta split: sum.splits)

lemma dispatch_preserves:
  assumes "Q d" and "\<And>r. Q (fst (run_route r req e d))"
  shows "Q (fst (dispatch ls req e d))"
proof (induction ls)
  case Nil
  show ?case using assms(1) by simp
next
  case (Cons l ls)
  show ?case
  proof (cases l)
    case UseError
    with Cons show ?thesis by simp
  next
    case (Route m p r)
    with Cons assms(2) [of r] show ?thesis
      by (auto split: prod.splits sum.splits)
  next
    case UseAll
    with assms(1) show ?thesis by simp
  qed
qed

lemma run_route_failed_save:
  "\<not> write_ok e \<Longrightarrow> data_file (fst (run_route r req e d)) = data_file d"
  by (simp add: run_route_disk failed_save_data_file split: route_name.splits sum.splits)

lemma app_failed_save:
  "\<not> write_ok e \<Longrightarrow> data_file (fst (app req e d)) = data_file d"
  unfolding app_def
  by (rule dispatch_preserves [where Q = "\<lambda>x. data_file x = data_file d"])
     (simp_all add: run_route_failed_save)

subsection \<open>Evaluating the samples\<close>

lemmas parse_simps =
  parseInt_def isWhiteSpace_def is_digit_def digit_value_def digits_value_def Let_def

lemmas sample_simps =
  sample_env_def sample_disk_def empty_disk_def laptop_def phone_def sample_upload_def
  name_only_def empty_body_def

lemma same_id_samples [simp]:
  "same_id ''1'' laptop" "\<not> same_id ''1'' phone" "same_id ''2'' phone" "\<not> same_id ''2'' laptop"
  by (simp_all add: same_id_def parse_simps laptop_def phone_def)

lemma app_get_disk: "fst (app (get_request ident) e d) = d"
proof (cases "ident = []")
  case True
  then show ?thesis by (simp add: app_def app_stack_def get_request_def)
next
  case False
  then show ?thesis by (simp add: app_get read_only_handlers)
qed

lemma app_photo_disk: "fst (app (photo_request ident) e d) = d"
proof (cases "ident = []")
  case True
  then show ?thesis by (simp add: app_def app_stack_def photo_request_def)
next
  case False
  then show ?thesis by (simp add: app_photo read_only_handlers)
qed

section \<open>Loading the collection\<close>

text \<open>
  Claim C8. Loading the record collection never fails its caller: when the data file is
  absent or cannot be parsed, \<open>readInventory\<close> returns the empty list, and the inventory a
  client sees through \<^verbatim>\<open>GET /inventory\<close> is then the empty array with status 200,
  not an error.
\<close>

theorem readInventory_absent_or_unparsable:
  "data_file d = None \<or> data_file d = Some (Malformed t) \<Longrightarrow>
     readInventory d = [] \<and> app list_request e d = (d, \<lparr>status = 200, content = ListJson []\<rparr>)"
  by (auto simp: readInventory_def fs_access_def fs_readFile_def JSON_parse_def app_list
      get_inventory_def)

theorem readInventory_absent_or_unparsable_witness:
  "readInventory \<lparr>data_file = Some (Malformed ''[{id: 1,''), photo_dir = {}\<rparr> = [] \<and>
   app list_request (sample_env True) \<lparr>data_file = Some (Malformed ''[{id: 1,''), photo_dir = {}\<rparr> =
     (\<lparr>data_file = Some (Malformed ''[{id: 1,''), photo_dir = {}\<rparr>,
      \<lparr>status = 200, content = ListJson []\<rparr>) \<and>
   readInventory empty_disk = [] \<and>
   app list_request (sample_env True) empty_disk =
     (empty_disk, \<lparr>status = 200, content = ListJson []\<rparr>)"
  using readInventory_absent_or_unparsable
    [of "\<lparr>data_file = Some (Malformed ''[{id: 1,''), photo_dir = {}\<rparr>" "''[{id: 1,''"
        "sample_env True"]
    readInventory_absent_or_unparsable [of empty_disk "[]" "sample_env True"]
  by (simp add: empty_disk_def)

section \<open>Read-only requests\<close>

text \<open>
  Claim C10. The read-only operations (\<^verbatim>\<open>GET /inventory\<close>,
  \<^verbatim>\<open>GET /inventory/:id\<close>, \<^verbatim>\<open>GET /inventory/:id/photo\<close> and
  \<^verbatim>\<open>POST /search\<close>) leave the disk, and so the persisted collection, exactly as it
  was: neither the derived \<^verbatim>\<open>photo_url\<close> nor the marker that a search appends to the
  description is written back. This holds for the handlers and for the requests as the
  application dispatches them.
\<close>

theorem read_only_requests_keep_disk:
  "fst (get_inventory e d) = d \<and> fst (get_inventory_id ident e d) = d \<and>
   fst (get_inventory_id_photo ident e d) = d \<and> fst (post_search b e d) = d \<and>
   fst (app list_request e d) = d \<and> fst (app (get_request ident) e d) = d \<and>
   fst (app (photo_request ident) e d) = d \<and> fst (app (search_request b) e d) = d"
  by (simp add: read_only_handlers app_list app_search app_get_disk app_photo_disk)

theorem read_only_requests_keep_disk_witness:
  "fst (app (get_request ''1'') (sample_env True) sample_disk) = sample_disk \<and>
   fst (app (search_request (empty_body\<lparr>body_id := Some ''1'', body_has_photo := Some ''true''\<rparr>))
          (sample_env True) sample_disk) = sample_disk"
  using read_only_requests_keep_disk
    [of "sample_env True" sample_disk "''1''"
        "empty_body\<lparr>body_id := Some ''1'', body_has_photo := Some ''true''\<rparr>"]
  by simp

section \<open>Failed saves\<close>

text \<open>
  Claim C2. When the save of the collection fails, each mutating operation that reaches the
  save (registration with a name, and update, photo replacement and deletion of an existing
  record) responds with status 500, and the data file is exactly what it was before the
  operation. The data file is in fact unchanged by every request served while the write
  fails. (The photo directory is not part of this statement: an old photo has been unlinked
  and a new upload stored before the save is tried.)
\<close>

theorem failed_save_keeps_collection:
  assumes "\<not> write_ok e"
  shows "(truthy (body_inventory_name b) \<longrightarrow>
            status (snd (post_register b f e d)) = 500 \<and>
            data_file (fst (post_register b f e d)) = data_file d) \<and>
         (findIndex (same_id ident) (readInventory d) \<noteq> None \<longrightarrow>
            status (snd (put_inventory_id ident b e d)) = 500 \<and>
            data_file (fst (put_inventory_id ident b e d)) = data_file d \<and>
            status (snd (put_inventory_id_photo ident (Some filename) e d)) = 500 \<and>
            data_file (fst (put_inventory_id_photo ident (Some filename) e d)) = data_file d \<and>
            status (snd (delete_inventory_id ident e d)) = 500 \<and>
            data_file (fst (delete_inventory_id ident e d)) = data_file d) \<and>
         data_file (fst (app req e d)) = data_file d"
proof -
  have reg: "truthy (body_inventory_name b) \<Longrightarrow> status (snd (post_register b f e d)) = 500"
    using assms by (simp add: post_register_def writeInventory_fail Let_def)
  have others: "status (snd (put_inventory_id ident b e d)) = 500"
    "status (snd (put_inventory_id_photo ident (Some filename) e d)) = 500"
    "status (snd (delete_inventory_id ident e d)) = 500"
    if "findIndex (same_id ident) (readInventory d) \<noteq> None"
    using assms that
    by (auto simp: put_inventory_id_def put_inventory_id_photo_def delete_inventory_id_def
        writeInventory_fail Let_def)
  show ?thesis
    using assms reg others
    by (simp add: failed_save_data_file app_failed_save)
qed

theorem failed_save_keeps_collection_witness:
  "\<not> write_ok (sample_env False) \<and> truthy (body_inventory_name (name_only ''Desk'')) \<and>
   findIndex (same_id ''1'') (readInventory sample_disk) \<noteq> None \<and>
   status (snd (post_register (name_only ''Desk'') None (sample_env False) sample_disk)) = 500 \<and>
   data_file (fst (post_register (name_only ''Desk'') None (sample_env False) sample_disk)) =
     data_file sample_disk \<and>
   status (snd (put_inventory_id ''1'' (name_only ''Desk'') (sample_env False) sample_disk)) = 500 \<and>
   data_file (fst (put_inventory_id ''1'' (name_only ''Desk'') (sample_env False) sample_disk)) =
     data_file sample_disk \<and>
   status (snd (put_inventory_id_photo ''1'' (Some ''new.png'') (sample_env False) sample_disk)) = 500 \<and>
   data_file (fst (put_inventory_id_photo ''1'' (Some ''new.png'') (sample_env False) sample_disk)) =
     data_file sample_disk \<and>
   status (snd (delete_inventory_id ''1'' (sample_env False) sample_disk)) = 500 \<and>
   data_file (fst (delete_inventory_id ''1'' (sample_env False) sample_disk)) = data_file sample_disk \<and>
   data_file (fst (app (delete_request ''1'') (sample_env False) sample_disk)) = data_file sample_disk"
proof -
  have h: "\<not> write_ok (sample_env False)" by (simp add: sample_env_def)
  have t: "truthy (body_inventory_name (name_only ''Desk''))"
    by (simp add: truthy_def name_only_def empty_body_def)
  have i: "findIndex (same_id ''1'') (readInventory sample_disk) \<noteq> None"
    by (simp add: readInventory_cases sample_disk_def)
  show ?thesis
    using h t i
      failed_save_keeps_collection
        [OF h, of "name_only ''Desk''" None sample_disk "''1''" "''new.png''" "delete_request ''1''"]
    by simp
qed

section \<open>Registration\<close>

lemma getNextId_eq:
  "getNextId d = (if readInventory d = [] then 1 else Max (set (map item_id (readInventory d))) + 1)"
  by (simp add: getNextId_def Let_def)

lemma post_register_ok:
  assumes "truthy (body_inventory_name b)" "write_ok e"
  shows "post_register b f e d =
     (d\<lparr>data_file := Some (JsonArray (readInventory d @
          [\<lparr>item_id = getNextId d, inventory_name = the (body_inventory_name b),
            description = (if truthy (body_description b) then the (body_description b) else []),
            photo_filename = f, created_at = iso_now e\<rparr>]))\<rparr>,
      \<lparr>status = 201, content = ResultJson ''Device registered successfully''
          \<lparr>item_id = getNextId d, inventory_name = the (body_inventory_name b),
            description = (if truthy (body_description b) then the (body_description b) else []),
            photo_filename = f, created_at = iso_now e\<rparr>\<rparr>)"
  using assms by (simp add: post_register_def writeInventory_ok Let_def)

text \<open>
  Claim C4. On an empty store, registering with only \<^verbatim>\<open>inventory_name\<close> stores and
  returns, with status 201, a record with identifier 1, an empty description and no photo;
  a registration that follows it is given identifier 2; and in general a registration that
  is saved is given 1 when the collection is empty and the largest identifier plus one
  otherwise.
\<close>
theorem register_assigns_next_id:
  assumes "readInventory d = []" and "write_ok e" and "write_ok e2" and "n \<noteq> []"
    and "truthy (body_inventory_name b2)"
  shows "app (register_request (name_only n) None) e d =
           (d\<lparr>data_file := Some (JsonArray
                [\<lparr>item_id = 1, inventory_name = n, description = [], photo_filename = None,
                  created_at = iso_now e\<rparr>])\<rparr>,
            \<lparr>status = 201,
             content = ResultJson ''Device registered successfully''
               \<lparr>item_id = 1, inventory_name = n, description = [], photo_filename = None,
                created_at = iso_now e\<rparr>\<rparr>) \<and>
         map_option item_id
           (registered (snd (post_register b2 f2 e2
              (fst (app (register_request (name_only n) None) e d))))) = Some 2 \<and>
         map_option item_id (registered (snd (post_register b2 f2 e2 d2))) =
           Some (if readInventory d2 = [] then 1
                 else Max (set (map item_id (readInventory d2))) + 1)"
proof -
  have first: "app (register_request (name_only n) None) e d =
           (d\<lparr>data_file := Some (JsonArray
                [\<lparr>item_id = 1, inventory_name = n, description = [], photo_filename = None,
                  created_at = iso_now e\<rparr>])\<rparr>,
            \<lparr>status = 201,
             content = ResultJson ''Device registered successfully''
               \<lparr>item_id = 1, inventory_name = n, description = [], photo_filename = None,
                created_at = iso_now e\<rparr>\<rparr>)"
    using assms(1,2,4)
    by (simp add: app_register upload_single_def post_register_ok getNextId_eq truthy_def
        name_only_def empty_body_def)
  have general: "map_option item_id (registered (snd (post_register b2 f2 e2 d'))) =
      Some (if readInventory d' = [] then 1 else Max (set (map item_id (readInventory d'))) + 1)"
    for d'
    using assms(3,5) by (simp add: post_register_ok registered_def getNextId_eq)
  have second: "map_option item_id
           (registered (snd (post_register b2 f2 e2
              (fst (app (register_request (name_only n) None) e d))))) = Some 2"
    by (simp add: general first)
  from first second general show ?thesis by blast
qed

theorem register_assigns_next_id_witness:
  "app (register_request (name_only ''Laptop'') None) (sample_env True) empty_disk =
     (\<lparr>data_file = Some (JsonArray
          [\<lparr>item_id = 1, inventory_name = ''Laptop'', description = [], photo_filename = None,
            created_at = ''2025-01-01T00:00:00.000Z''\<rparr>]), photo_dir = {}\<rparr>,
      \<lparr>status = 201,
       content = ResultJson ''Device registered successfully''
         \<lparr>item_id = 1, inventory_name = ''Laptop'', description = [], photo_filename = None,
          created_at = ''2025-01-01T00:00:00.000Z''\<rparr>\<rparr>) \<and>
   map_option item_id
     (registered (snd (post_register (name_only ''Phone'') None (sample_env True)
        (fst (app (register_request (name_only ''Laptop'') None) (sample_env True) empty_disk))))) =
     Some 2 \<and>
   map_option item_id
     (registered (snd (post_register (name_only ''Phone'') None (sample_env True) sample_disk))) = Some 3"
proof -
  have h: "readInventory empty_disk = []" "write_ok (sample_env True)" "''Laptop'' \<noteq> []"
    "truthy (body_inventory_name (name_only ''Phone''))"
    by (simp_all add: readInventory_cases empty_disk_def sample_env_def truthy_def name_only_def
        empty_body_def)
  show ?thesis
    using register_assigns_next_id [OF h(1) h(2) h(2) h(3) h(4), of None sample_disk]
    by (simp add: empty_disk_def sample_env_def readInventory_cases sample_disk_def laptop_def
        phone_def app_register upload_single_def post_register_def writeInventory_def
        getNextId_def registered_def truthy_def name_only_def empty_body_def Let_def)
qed

section \<open>Update of name and description\<close>

lemma put_inventory_id_ok:
  assumes "findIndex (same_id ident) (readInventory d) = Some i" and "write_ok e"
  shows "put_inventory_id ident b e d =
     (d\<lparr>data_file := Some (JsonArray ((readInventory d)[i := spec_update b (readInventory d ! i)]))\<rparr>,
      \<lparr>status = 200, content = ResultJson ''Device updated successfully''
          (spec_update b (readInventory d ! i))\<rparr>)"
proof -
  have len: "i < length (readInventory d)"
    using findIndex_Some [OF assms(1)] by simp
  show ?thesis
    using assms len
    by (simp add: put_inventory_id_def writeInventory_ok Let_def spec_update_def
        split: option.splits)
qed

text \<open>
  Claim C5. For an existing record, \<^verbatim>\<open>PUT /inventory/:id\<close> (when the save
  succeeds) stores at the record's place the record with exactly the fields present in the
  body overwritten, an empty string included, and the absent fields untouched; the
  identifier, the photo file name and the creation time of the record, all other records,
  the length of the collection and the photo directory are unchanged; with both fields
  absent the stored collection is what it was.
\<close>
theorem update_overwrites_present_fields:
  assumes "findIndex (same_id ident) (readInventory d) = Some i" and "write_ok e"
  shows "readInventory (fst (put_inventory_id ident b e d)) =
           (readInventory d)[i := spec_update b (readInventory d ! i)] \<and>
         snd (put_inventory_id ident b e d) =
           \<lparr>status = 200, content = ResultJson ''Device updated successfully''
               (spec_update b (readInventory d ! i))\<rparr> \<and>
         item_id (spec_update b (readInventory d ! i)) = item_id (readInventory d ! i) \<and>
         photo_filename (spec_update b (readInventory d ! i)) = photo_filename (readInventory d ! i) \<and>
         created_at (spec_update b (readInventory d ! i)) = created_at (readInventory d ! i) \<and>
         (\<forall>j. j \<noteq> i \<longrightarrow>
            readInventory (fst (put_inventory_id ident b e d)) ! j = readInventory d ! j) \<and>
         length (readInventory (fst (put_inventory_id ident b e d))) = length (readInventory d) \<and>
         photo_dir (fst (put_inventory_id ident b e d)) = photo_dir d \<and>
         (body_inventory_name b = None \<and> body_description b = None \<longrightarrow>
            readInventory (fst (put_inventory_id ident b e d)) = readInventory d)"
  by (simp add: put_inventory_id_ok [OF assms] spec_update_def)

theorem update_overwrites_present_fields_witness:
  "findIndex (same_id ''1'') (readInventory sample_disk) = Some 0 \<and>
   readInventory (fst (put_inventory_id ''1'' (empty_body\<lparr>body_description := Some []\<rparr>)
       (sample_env True) sample_disk)) = [laptop\<lparr>description := []\<rparr>, phone] \<and>
   readInventory (fst (put_inventory_id ''1'' empty_body (sample_env True) sample_disk)) =
     [laptop, phone]"
proof -
  have h: "findIndex (same_id ''1'') (readInventory sample_disk) = Some 0" "write_ok (sample_env True)"
    by (simp_all add: readInventory_cases sample_disk_def sample_env_def)
  show ?thesis
    using h(1) update_overwrites_present_fields [OF h, of "empty_body\<lparr>body_description := Some []\<rparr>"]
      update_overwrites_present_fields [OF h, of empty_body]
    by (simp add: spec_update_def empty_body_def readInventory_cases sample_disk_def)
qed

section \<open>Identifiers that are not numbers\<close>

lemma find_same_id_NaN: "parseInt ident = None \<Longrightarrow> find (same_id ident) xs = None"
  by (induction xs) (simp_all add: same_id_def)

lemma findIndex_same_id_NaN: "parseInt ident = None \<Longrightarrow> findIndex (same_id ident) xs = None"
  by (simp add: findIndex_None same_id_def)

text \<open>
  Claim C6 says that every non-numeric identifier string is answered with 404. The string
  \<^verbatim>\<open>1abc\<close> is not a number, yet \<^verbatim>\<open>parseInt\<close> reads its leading digit: on a
  store that holds record 1, \<^verbatim>\<open>GET\<close>, \<^verbatim>\<open>PUT\<close> and \<^verbatim>\<open>DELETE\<close> of
  \<^verbatim>\<open>/inventory/1abc\<close> and a search for \<^verbatim>\<open>1abc\<close> all find that record.
\<close>
theorem numeric_prefix_id_found:
  "\<not> list_all (is_digit 10) ''1abc'' \<and>
   status (snd (app (get_request ''1abc'') (sample_env True) sample_disk)) = 200 \<and>
   status (snd (app (update_request ''1abc'' empty_body) (sample_env True) sample_disk)) = 200 \<and>
   status (snd (app (delete_request ''1abc'') (sample_env True) sample_disk)) = 200 \<and>
   status (snd (app (search_request (empty_body\<lparr>body_id := Some ''1abc''\<rparr>)) (sample_env True)
     sample_disk)) = 200"
  by (simp add: app_get app_update app_delete app_search get_inventory_id_def put_inventory_id_def
      delete_inventory_id_def post_search_def same_id_def parse_simps sample_simps
      readInventory_cases writeInventory_def truthy_def)

text \<open>
  Claim C6, amended. For every identifier string on which \<^verbatim>\<open>parseInt\<close> fails (no
  digit follows the optional white space, sign and hexadecimal prefix),
  \<^verbatim>\<open>GET\<close>, \<^verbatim>\<open>PUT\<close> and \<^verbatim>\<open>DELETE /inventory/:id\<close> answer 404 with
  "Device not found" and leave the disk as it was, and so does \<^verbatim>\<open>POST /search\<close>
  unless the identifier is the empty string, which it answers with 400 "ID is required".
\<close>

theorem unparsable_id_not_found:
  assumes "parseInt ident = None"
  shows "get_inventory_id ident e d = (d, \<lparr>status = 404, content = ErrorJson ''Device not found''\<rparr>) \<and>
         put_inventory_id ident b e d = (d, \<lparr>status = 404, content = ErrorJson ''Device not found''\<rparr>) \<and>
         delete_inventory_id ident e d = (d, \<lparr>status = 404, content = ErrorJson ''Device not found''\<rparr>) \<and>
         post_search (b\<lparr>body_id := Some ident\<rparr>) e d =
           (d, if ident = [] then \<lparr>status = 400, content = ErrorJson ''ID is required''\<rparr>
               else \<lparr>status = 404, content = ErrorJson ''Device not found''\<rparr>)"
  using assms
  by (simp add: get_inventory_id_def put_inventory_id_def delete_inventory_id_def post_search_def
      find_same_id_NaN findIndex_same_id_NaN truthy_def Let_def)

theorem unparsable_id_not_found_witness:
  "parseInt ''abc'' = None \<and>
   app (get_request ''abc'') (sample_env True) sample_disk =
     (sample_disk, \<lparr>status = 404, content = ErrorJson ''Device not found''\<rparr>) \<and>
   app (update_request ''abc'' (name_only ''Desk'')) (sample_env True) sample_disk =
     (sample_disk, \<lparr>status = 404, content = ErrorJson ''Device not found''\<rparr>) \<and>
   app (delete_request ''abc'') (sample_env True) sample_disk =
     (sample_disk, \<lparr>status = 404, content = ErrorJson ''Device not found''\<rparr>) \<and>
   app (search_request (empty_body\<lparr>body_id := Some ''abc''\<rparr>)) (sample_env True) sample_disk =
     (sample_disk, \<lparr>status = 404, content = ErrorJson ''Device not found''\<rparr>)"
proof -
  have h: "parseInt ''abc'' = None" by (simp add: parse_simps)
  show ?thesis
    using h unparsable_id_not_found [OF h, of "sample_env True" sample_disk "name_only ''Desk''"]
      unparsable_id_not_found [OF h, of "sample_env True" sample_disk empty_body]
    by (simp add: app_get app_update app_delete app_search)
qed

section \<open>Search\<close>

text \<open>
  Claim C7. For a stored record with a photo that a search finds by its identifier, a
  \<^verbatim>\<open>has_photo\<close> equal to the string \<^verbatim>\<open>true\<close> makes the description of the
  response the stored description followed by the photo marker, while the disk is unchanged
  and a \<^verbatim>\<open>GET /inventory/:id\<close> that follows shows the stored description; with any
  other \<^verbatim>\<open>has_photo\<close> (or none), or for a record without a photo, the response
  carries the stored description as it is.
\<close>
theorem search_marker_only_in_response:
  assumes "find (same_id ident) (readInventory d) = Some it" and "ident \<noteq> []"
  shows "(truthy (photo_filename it) \<longrightarrow>
            post_search (b\<lparr>body_id := Some ident, body_has_photo := Some ''true''\<rparr>) e d =
              (d, \<lparr>status = 200,
                   content = ItemJson ((with_photo_url it (photo_url_of it))
                               \<lparr>description := description it @ photo_marker it\<rparr>)\<rparr>) \<and>
            get_inventory_id ident e2
              (fst (post_search (b\<lparr>body_id := Some ident, body_has_photo := Some ''true''\<rparr>) e d)) =
              (d, \<lparr>status = 200, content = ItemJson (with_photo_url it (photo_url_of it))\<rparr>)) \<and>
         (h \<noteq> Some ''true'' \<or> \<not> truthy (photo_filename it) \<longrightarrow>
            post_search (b\<lparr>body_id := Some ident, body_has_photo := h\<rparr>) e d =
              (d, \<lparr>status = 200, content = ItemJson (with_photo_url it (photo_url_of it))\<rparr>)) \<and>
         description (with_photo_url it (photo_url_of it)) = description it"
  using assms
  by (auto simp: post_search_def get_inventory_id_def truthy_def with_photo_url_def Let_def)

theorem search_marker_only_in_response_witness:
  "find (same_id ''1'') (readInventory sample_disk) = Some laptop \<and>
   truthy (photo_filename laptop) \<and>
   post_search (empty_body\<lparr>body_id := Some ''1'', body_has_photo := Some ''true''\<rparr>)
       (sample_env True) sample_disk =
     (sample_disk,
      \<lparr>status = 200,
       content = ItemJson
         \<lparr>item_id = 1, inventory_name = ''Laptop'',
          description = ''13 inch'' @ [CHR 0x0A] @ ''[Photo: /inventory/1/photo]'',
          photo_filename = Some ''1700000000000-42.png'',
          created_at = ''2025-01-01T00:00:00.000Z'',
          photo_url = Some ''/inventory/1/photo''\<rparr>\<rparr>) \<and>
   get_inventory_id ''1'' (sample_env True)
       (fst (post_search (empty_body\<lparr>body_id := Some ''1'', body_has_photo := Some ''true''\<rparr>)
          (sample_env True) sample_disk)) =
     (sample_disk,
      \<lparr>status = 200,
       content = ItemJson
         \<lparr>item_id = 1, inventory_name = ''Laptop'', description = ''13 inch'',
          photo_filename = Some ''1700000000000-42.png'',
          created_at = ''2025-01-01T00:00:00.000Z'',
          photo_url = Some ''/inventory/1/photo''\<rparr>\<rparr>) \<and>
   post_search (empty_body\<lparr>body_id := Some ''1'', body_has_photo := Some ''yes''\<rparr>)
       (sample_env True) sample_disk =
     (sample_disk,
      \<lparr>status = 200,
       content = ItemJson
         \<lparr>item_id = 1, inventory_name = ''Laptop'', description = ''13 inch'',
          photo_filename = Some ''1700000000000-42.png'',
          created_at = ''2025-01-01T00:00:00.000Z'',
          photo_url = Some ''/inventory/1/photo''\<rparr>\<rparr>)"
proof -
  have f: "find (same_id ''1'') (readInventory sample_disk) = Some laptop"
    by (simp add: readInventory_cases sample_disk_def)
  have n: "''1'' \<noteq> []" by simp
  have t: "truthy (photo_filename laptop)" by (simp add: truthy_def laptop_def)
  show ?thesis
    using f t
      search_marker_only_in_response [OF f n, of empty_body "sample_env True" "sample_env True" "Some ''yes''"]
    by (simp add: with_photo_url_def laptop_def phone_def photo_url_of_def photo_marker_def
        truthy_def show_int_def show_nat.simps digit_char_def post_search_def get_inventory_id_def
        readInventory_cases sample_disk_def empty_body_def same_id_def parse_simps)
qed

section \<open>Rejected uploads\<close>

text \<open>
  Claim C3 says that an upload whose declared content type is not an image is answered with
  a client error (4xx). The file filter hands a plain error to \<^verbatim>\<open>next\<close>, no
  error-handling middleware follows the routes, and the default handler answers 500: here
  for a \<^verbatim>\<open>text/plain\<close> file sent to \<^verbatim>\<open>/register\<close>.
\<close>

theorem non_image_upload_status:
  "\<not> startsWith ''text/plain'' ''image/'' \<and>
   status (snd (app (register_request (name_only ''Camera'') (Some (sample_upload ''text/plain'' 100)))
     (sample_env True) empty_disk)) = 500"
  by (simp add: app_register upload_single_def fileFilter_def mimetype_def toLowerCase_def startsWith_def sample_upload_def)

text \<open>
  The error-handling middleware of the source would answer 400 to a size error that reached
  it, but it stands before the routes in the stack: a size error raised by the upload of a
  route is answered by the default handler as well.
\<close>

lemma error_middleware_answer:
  "next_error app_stack (MulterError ''LIMIT_FILE_SIZE'') =
     \<lparr>status = 400, content = ErrorJson ''File too large. Maximum 5MB''\<rparr>"
  by (simp add: app_stack_def multer_error_middleware_def)

lemma oversized_upload_status:
  "file_size (sample_upload ''image/png'' (6 * 1024 * 1024)) > fileSize_limit \<and>
   next_error [] (MulterError ''LIMIT_FILE_SIZE'') = \<lparr>status = 500, content = DefaultErrorPage\<rparr> \<and>
   app (register_request (name_only ''Camera'') (Some (sample_upload ''image/png'' (6 * 1024 * 1024))))
     (sample_env True) empty_disk = (empty_disk, \<lparr>status = 500, content = DefaultErrorPage\<rparr>)"
  by (simp add: app_register upload_single_def fileFilter_def mimetype_def toLowerCase_def startsWith_def sample_upload_def
      fileSize_limit_def)

text \<open>
  The filter reads the type in lower case: a part declared \<^verbatim>\<open>IMAGE/PNG\<close> does not
  start with \<^verbatim>\<open>image/\<close> as it was sent, and is accepted and stored all the same.
\<close>

lemma upper_case_image_type_accepted:
  "\<not> startsWith ''IMAGE/PNG'' ''image/'' \<and>
   mimetype (sample_upload ''IMAGE/PNG'' 2048) = ''image/png'' \<and>
   upload_single (Some (sample_upload ''IMAGE/PNG'' 2048)) (sample_env True) empty_disk =
     (\<lparr>data_file = None, photo_dir = {''1700000000000-42.png''}\<rparr>,
      Inr (Some ''1700000000000-42.png'')) \<and>
   status (snd (app (register_request (name_only ''Camera'') (Some (sample_upload ''IMAGE/PNG'' 2048)))
     (sample_env True) empty_disk)) = 201"
  by (simp add: app_register upload_single_def fileFilter_def mimetype_def toLowerCase_def
      startsWith_def sample_upload_def fileSize_limit_def uniqueName_def show_nat.simps
      digit_char_def post_register_def writeInventory_def truthy_def name_only_def empty_body_def
      sample_env_def empty_disk_def Let_def)

text \<open>
  Claim C3, amended. Every upload to \<^verbatim>\<open>/register\<close> or
  \<^verbatim>\<open>/inventory/:id/photo\<close> whose declared content type, put in lower case as the
  upload middleware hands it to the file filter, does not start with \<^verbatim>\<open>image/\<close>
  is rejected before the route's handler runs: the disk is unchanged and the response is
  the default error response with status 500. (A \<^verbatim>\<open>PUT /inventory//photo\<close> with an
  empty identifier matches no route.)
\<close>

theorem non_image_upload_rejected:
  assumes "\<not> startsWith (mimetype f) ''image/''"
  shows "app (register_request b (Some f)) e d = (d, \<lparr>status = 500, content = DefaultErrorPage\<rparr>) \<and>
         app (replace_photo_request ident (Some f)) e d =
           (d, if ident = [] then \<lparr>status = 405, content = ErrorJson ''Method Not Allowed''\<rparr>
               else \<lparr>status = 500, content = DefaultErrorPage\<rparr>)"
proof -
  have u: "upload_single (Some f) e d =
      (d, Inl (if fieldname f \<noteq> ''photo'' then MulterError ''LIMIT_UNEXPECTED_FILE''
               else Error ''Only images are allowed''))"
    using assms by (simp add: upload_single_def fileFilter_def)
  have r: "app (register_request b (Some f)) e d = (d, \<lparr>status = 500, content = DefaultErrorPage\<rparr>)"
    by (simp add: app_register u)
  have p: "app (replace_photo_request ident (Some f)) e d =
           (d, if ident = [] then \<lparr>status = 405, content = ErrorJson ''Method Not Allowed''\<rparr>
               else \<lparr>status = 500, content = DefaultErrorPage\<rparr>)"
  proof (cases "ident = []")
    case True
    then show ?thesis by (simp add: app_def app_stack_def replace_photo_request_def)
  next
    case False
    then show ?thesis by (simp add: app_replace_photo u)
  qed
  from r p show ?thesis by simp
qed

theorem non_image_upload_rejected_witness:
  "mimetype (sample_upload ''Application/PDF'' 2048) = ''application/pdf'' \<and>
   \<not> startsWith (mimetype (sample_upload ''Application/PDF'' 2048)) ''image/'' \<and>
   app (register_request (name_only ''Camera'') (Some (sample_upload ''Application/PDF'' 2048)))
     (sample_env True) sample_disk = (sample_disk, \<lparr>status = 500, content = DefaultErrorPage\<rparr>) \<and>
   app (replace_photo_request ''1'' (Some (sample_upload ''Application/PDF'' 2048)))
     (sample_env True) sample_disk = (sample_disk, \<lparr>status = 500, content = DefaultErrorPage\<rparr>)"
proof -
  have h: "\<not> startsWith (mimetype (sample_upload ''Application/PDF'' 2048)) ''image/''"
    by (simp add: startsWith_def mimetype_def toLowerCase_def sample_upload_def)
  have m: "mimetype (sample_upload ''Application/PDF'' 2048) = ''application/pdf''"
    by (simp add: mimetype_def toLowerCase_def sample_upload_def)
  show ?thesis
    using h m
      non_image_upload_rejected
        [OF h, of "name_only ''Camera''" "sample_env True" sample_disk "''1''"]
    by simp
qed

section \<open>The store invariant\<close>

lemma getNextId_fresh: "x \<in> set (readInventory d) \<Longrightarrow> item_id x < getNextId d"
proof -
  assume x: "x \<in> set (readInventory d)"
  then have ne: "readInventory d \<noteq> []" by auto
  have "item_id x \<le> Max (set (map item_id (readInventory d)))"
    using x by (intro Max_ge) auto
  with ne show ?thesis by (simp add: getNextId_eq)
qed

lemma map_update_same: "f y = f (xs ! i) \<Longrightarrow> map f (xs[i := y]) = map f xs"
  by (induction xs arbitrary: i) (auto split: nat.splits)

lemma list_all_update: "list_all P xs \<Longrightarrow> P y \<Longrightarrow> list_all P (xs[i := y])"
  by (induction xs arbitrary: i) (auto split: nat.splits)

lemma distinct_map_splice1: "distinct (map f xs) \<Longrightarrow> distinct (map f (splice1 i xs))"
proof -
  assume d: "distinct (map f xs)"
  have "map f (splice1 i xs) = take i (map f xs) @ drop (Suc i) (map f xs)"
    by (simp add: splice1_def take_map drop_map)
  then show ?thesis
    using d set_take_disj_set_drop_if_distinct [of "map f xs" i "Suc i"] by simp
qed

lemma list_all_splice1: "list_all P xs \<Longrightarrow> list_all P (splice1 i xs)"
  by (auto simp: splice1_def list_all_iff dest: in_set_takeD in_set_dropD)

lemma store_ok_register:
  assumes "store_ok d" and "f \<noteq> Some []"
  shows "store_ok (fst (post_register b f e d))"
proof (cases "truthy (body_inventory_name b) \<and> write_ok e")
  case True
  have "getNextId d \<notin> item_id ` set (readInventory d)"
    using getNextId_fresh [of _ d] by force
  with assms True show ?thesis
    by (simp add: post_register_ok store_ok_def)
next
  case False
  with assms show ?thesis
    by (auto simp: post_register_def writeInventory_fail Let_def)
qed

lemma store_ok_update:
  assumes "store_ok d"
  shows "store_ok (fst (put_inventory_id ident b e d))"
proof (cases "findIndex (same_id ident) (readInventory d)")
  case None
  with assms show ?thesis by (simp add: put_inventory_id_def)
next
  case (Some i)
  show ?thesis
  proof (cases "write_ok e")
    case True
    have "i < length (readInventory d)" using findIndex_Some [OF Some] by simp
    then have "readInventory d ! i \<in> set (readInventory d)" by simp
    with assms have "photo_filename (readInventory d ! i) \<noteq> Some []"
      by (auto simp: store_ok_def list_all_iff)
    with assms True show ?thesis
      by (simp add: put_inventory_id_ok [OF Some True] store_ok_def map_update_same
          list_all_update spec_update_def)
  next
    case False
    with assms Some show ?thesis
      by (simp add: put_inventory_id_def writeInventory_fail Let_def)
  qed
qed

lemma store_ok_replace_photo:
  assumes "store_ok d" and "f \<noteq> Some []"
  shows "store_ok (fst (put_inventory_id_photo ident f e d))"
proof (cases f)
  case None
  with assms show ?thesis by (simp add: put_inventory_id_photo_def)
next
  case (Some filename)
  with assms(2) have ne: "filename \<noteq> []" by simp
  show ?thesis
  proof (cases "findIndex (same_id ident) (readInventory d)")
    case None
    with assms Some show ?thesis by (simp add: put_inventory_id_photo_def)
  next
    case (Some i)
    have "list_all (\<lambda>it. photo_filename it \<noteq> Some [])
        ((readInventory d)[i := (readInventory d ! i)\<lparr>photo_filename := Some filename\<rparr>])"
      using assms(1) ne by (intro list_all_update) (simp_all add: store_ok_def)
    with assms(1) Some \<open>f = Some filename\<close> show ?thesis
      by (simp add: put_inventory_id_photo_def writeInventory_def Let_def store_ok_def
          map_update_same)
  qed
qed

lemma store_ok_delete:
  assumes "store_ok d"
  shows "store_ok (fst (delete_inventory_id ident e d))"
  using assms
  by (auto simp: delete_inventory_id_def writeInventory_def Let_def store_ok_def
      distinct_map_splice1 list_all_splice1 split: option.splits)

lemma store_ok_upload: "store_ok (fst (upload_single p e d)) = store_ok d"
  by (simp add: store_ok_def)

lemma upload_single_Some_nonempty:
  "snd (upload_single p e d) = Inr f \<Longrightarrow> f \<noteq> Some []"
  using upload_single_name [of p e d] by auto

lemma store_ok_run_route: "store_ok d \<Longrightarrow> store_ok (fst (run_route r req e d))"
  by (auto simp: run_route_disk store_ok_upload store_ok_register store_ok_update
      store_ok_replace_photo store_ok_delete upload_single_Some_nonempty
      split: route_name.splits sum.splits)

lemma store_ok_app: "store_ok d \<Longrightarrow> store_ok (fst (app req e d))"
  unfolding app_def by (rule dispatch_preserves) (simp_all add: store_ok_run_route)

lemma store_ok_serve: "store_ok d \<Longrightarrow> store_ok (fst (serve d trace))"
proof (induction trace arbitrary: d)
  case Nil
  then show ?case by simp
next
  case (Cons step trace)
  obtain req e where step: "step = (req, e)" by (cases step)
  have "store_ok (fst (app req e d))" using Cons.prems by (rule store_ok_app)
  from Cons.IH [OF this] show ?case
    by (simp add: step case_prod_beta)
qed

lemma store_ok_empty: "readInventory d = [] \<Longrightarrow> store_ok d"
  by (simp add: store_ok_def)

section \<open>Identifiers over a run of the service\<close>

lemma registered_not_201: "status r \<noteq> 201 \<Longrightarrow> registered r = None"
  by (simp add: registered_def split: content.splits)

lemma status_next_error: "status (next_error ls err) \<noteq> 201"
proof (induction ls)
  case Nil
  show ?case by simp
next
  case (Cons l ls)
  then show ?case
    by (cases l) (auto simp: multer_error_middleware_def split: js_error.splits)
qed

lemma registered_next_error: "registered (next_error ls err) = None"
  by (simp add: registered_not_201 status_next_error)

lemma registered_post_register:
  "registered (snd (post_register b f e d)) = Some it \<Longrightarrow> item_id it = getNextId d"
  by (auto simp: post_register_def writeInventory_def registered_def Let_def split: if_splits)

lemma registered_others:
  "registered (snd (get_inventory e d)) = None"
  "registered (snd (get_inventory_id ident e d)) = None"
  "registered (snd (put_inventory_id ident b e d)) = None"
  "registered (snd (get_inventory_id_photo ident e d)) = None"
  "registered (snd (put_inventory_id_photo ident f e d)) = None"
  "registered (snd (delete_inventory_id ident e d)) = None"
  "registered (snd (post_search b e d)) = None"
  by (auto simp: get_inventory_def get_inventory_id_def put_inventory_id_def
      get_inventory_id_photo_def put_inventory_id_photo_def delete_inventory_id_def
      post_search_def writeInventory_def registered_def Let_def split: option.splits)

lemma getNextId_upload [simp]: "getNextId (fst (upload_single p e d)) = getNextId d"
  by (simp add: getNextId_def)

lemma registered_run_route:
  "snd (run_route r req e d) = Inr resp \<Longrightarrow> registered resp = Some it \<Longrightarrow> item_id it = getNextId d"
proof (cases r)
  case Register
  assume a: "snd (run_route r req e d) = Inr resp" "registered resp = Some it"
  with Register obtain f where
    "resp = snd (post_register (body req) f e (fst (upload_single (file_part req) e d)))"
    by (auto simp: case_prod_beta split: sum.splits)
  with a(2) registered_post_register [of "body req" f e "fst (upload_single (file_part req) e d)" it]
  show ?thesis by simp
qed (auto simp: registered_others registered_not_201 case_prod_beta split: sum.splits)

lemma registered_dispatch:
  "registered (snd (dispatch ls req e d)) = Some it \<Longrightarrow> item_id it = getNextId d"
proof (induction ls)
  case Nil
  then show ?case by (simp add: registered_def)
next
  case (Cons l ls)
  show ?case
  proof (cases l)
    case UseError
    with Cons show ?thesis by simp
  next
    case (Route m p r)
    show ?thesis
    proof (cases "meth req = m \<and> match_path p (segs req)")
      case True
      show ?thesis
      proof (cases "snd (run_route r req e d)")
        case (Inl err)
        with True Route Cons.prems show ?thesis
          by (simp add: case_prod_beta registered_next_error)
      next
        case (Inr resp)
        with True Route Cons.prems have "registered resp = Some it"
          by (simp add: case_prod_beta)
        with Inr show ?thesis by (rule registered_run_route)
      qed
    next
      case False
      with Route Cons show ?thesis by simp
    qed
  next
    case UseAll
    with Cons.prems show ?thesis by (simp add: registered_def)
  qed
qed

text \<open>
  Claim C1 says that an identifier is never assigned again once its record has been deleted.
  From the empty store, register a record (identifier 1), delete it, and register again:
  the new record is given identifier 1 once more.
\<close>
theorem deleted_id_assigned_again:
  "\<not> no_reuse [] (snd (serve empty_disk reuse_trace))"
  by (simp add: reuse_trace_def app_register app_delete upload_single_def post_register_def
      delete_inventory_id_def writeInventory_def getNextId_def readInventory_cases truthy_def
      registered_def deleted_def splice1_def same_id_def parse_simps sample_env_def empty_disk_def
      name_only_def empty_body_def)

text \<open>
  Claim C1, amended. For every sequence of requests served from an empty store, the
  identifiers in the collection are distinct at every point, and a registration made then
  is given an identifier strictly greater than every identifier in the collection at that
  time: never that of a record still stored, and that of a deleted record only when no
  record with an equal or larger identifier is left.
\<close>

theorem ids_distinct_and_fresh:
  assumes "readInventory d0 = []"
  shows "distinct (map item_id (readInventory (fst (serve d0 trace)))) \<and>
         (\<forall>it. registered (snd (app req e (fst (serve d0 trace)))) = Some it \<longrightarrow>
            (\<forall>x \<in> set (readInventory (fst (serve d0 trace))). item_id x < item_id it))"
proof -
  have "store_ok (fst (serve d0 trace))"
    using assms by (intro store_ok_serve store_ok_empty)
  then have distinct: "distinct (map item_id (readInventory (fst (serve d0 trace))))"
    by (simp add: store_ok_def)
  have fresh: "item_id x < item_id it"
    if "registered (snd (app req e (fst (serve d0 trace)))) = Some it"
      and "x \<in> set (readInventory (fst (serve d0 trace)))" for it x
  proof -
    from that(1) have "item_id it = getNextId (fst (serve d0 trace))"
      unfolding app_def by (rule registered_dispatch)
    with getNextId_fresh [OF that(2)] show ?thesis by simp
  qed
  from distinct fresh show ?thesis by blast
qed

theorem ids_distinct_and_fresh_witness:
  "readInventory empty_disk = [] \<and>
   map item_id (readInventory (fst (serve empty_disk sample_trace))) = [1, 2] \<and>
   distinct (map item_id (readInventory (fst (serve empty_disk sample_trace)))) \<and>
   map_option item_id (registered (snd (app (register_request (name_only ''Desk'') None) (sample_env True)
     (fst (serve empty_disk sample_trace))))) = Some 3"
proof -
  have h: "readInventory empty_disk = []" by (simp add: readInventory_cases empty_disk_def)
  have s: "map item_id (readInventory (fst (serve empty_disk sample_trace))) = [1, 2]"
    by (simp add: sample_trace_def app_register upload_single_def post_register_def fileFilter_def
      mimetype_def toLowerCase_def
      startsWith_def fileSize_limit_def
      writeInventory_def getNextId_def readInventory_cases truthy_def
      sample_env_def empty_disk_def sample_upload_def name_only_def empty_body_def Let_def)
  have r: "map_option item_id (registered (snd (app (register_request (name_only ''Desk'') None) (sample_env True)
     (fst (serve empty_disk sample_trace))))) = Some 3"
    using s
    by (auto simp: app_register upload_single_def post_register_ok getNextId_eq registered_def truthy_def
      sample_env_def name_only_def empty_body_def)
  show ?thesis
    using h s r ids_distinct_and_fresh [OF h, of sample_trace "register_request (name_only ''Desk'') None" "sample_env True"]
    by simp
qed

section \<open>Printing and parsing an identifier\<close>

lemma less_10_cases:
  "k < 10 \<Longrightarrow> k = 0 \<or> k = 1 \<or> k = 2 \<or> k = 3 \<or> k = 4 \<or> k = 5 \<or> k = 6 \<or> k = 7 \<or> k = 8 \<or> k = (9::nat)"
  by arith

lemma digit_char_facts:
  assumes "k < 10"
  shows "digit_value (digit_char k) = Some k" and "is_digit 10 (digit_char k)"
    and "\<not> isWhiteSpace (digit_char k)"
    and "digit_char k \<notin> {CHR ''-'', CHR ''+'', CHR ''x'', CHR ''X''}"
  using less_10_cases [OF assms]
  by (auto simp: digit_char_def digit_value_def is_digit_def isWhiteSpace_def)

lemma show_nat_nonempty: "show_nat n \<noteq> []"
  by (subst show_nat.simps) simp

lemma show_nat_digits: "c \<in> set (show_nat n) \<Longrightarrow> c \<in> digit_char ` {..<10}"
proof (induction n arbitrary: c rule: show_nat.induct)
  case (1 n)
  show ?case
  proof (cases "n < 10")
    case True
    with "1.prems" show ?thesis by (subst (asm) show_nat.simps) auto
  next
    case False
    with "1.prems" have "c \<in> set (show_nat (n div 10)) \<or> c = digit_char (n mod 10)"
      by (subst (asm) show_nat.simps) auto
    with "1.IH" [OF False] show ?thesis by auto
  qed
qed

lemma digits_value_snoc:
  "digits_value r (z @ [c]) = digits_value r z * r + the (digit_value c)"
  by (simp add: digits_value_def)

lemma digits_value_show_nat: "digits_value 10 (show_nat n) = n"
proof (induction n rule: show_nat.induct)
  case (1 n)
  show ?case
  proof (cases "n < 10")
    case True
    then show ?thesis
      by (subst show_nat.simps) (simp add: digits_value_def digit_char_facts)
  next
    case False
    have "n mod 10 < 10" by simp
    with "1.IH" [OF False] False show ?thesis
      by (subst show_nat.simps) (simp add: digits_value_snoc digit_char_facts)
  qed
qed

lemma parseInt_digits:
  assumes "z \<noteq> []" and "set z \<subseteq> digit_char ` {..<10}"
  shows "parseInt z = Some (int (digits_value 10 z))"
    and "parseInt (CHR ''-'' # z) = Some (- int (digits_value 10 z))"
proof -
  have dig: "is_digit 10 c" "\<not> isWhiteSpace c" "c \<notin> {CHR ''-'', CHR ''+'', CHR ''x'', CHR ''X''}"
    if "c \<in> set z" for c
  proof -
    from that assms(2) obtain k where k: "k < 10" "c = digit_char k" by auto
    from digit_char_facts [OF k(1)] k(2)
    show "is_digit 10 c" "\<not> isWhiteSpace c"
      "c \<notin> {CHR ''-'', CHR ''+'', CHR ''x'', CHR ''X''}"
      by simp_all
  qed
  have hd: "hd z \<in> set z" using assms(1) by simp
  have snd: "z ! 1 \<in> set z" if "2 \<le> length z" using that by simp
  have dw: "dropWhile isWhiteSpace z = z"
    using assms(1) dig(2) [OF hd] by (cases z) auto
  have tw: "takeWhile (is_digit 10) z = z"
    using dig(1) by (simp add: takeWhile_eq_all_conv)
  have nohex: "z ! Suc 0 \<noteq> CHR ''x''" "z ! Suc 0 \<noteq> CHR ''X''" if "2 \<le> length z"
    using dig(3) [OF snd [OF that]] by auto
  have nosign: "hd z \<noteq> CHR ''-''" "hd z \<noteq> CHR ''+''"
    using dig(3) [OF hd] by auto
  show "parseInt z = Some (int (digits_value 10 z))"
    using assms(1) nohex nosign by (auto simp: parseInt_def dw tw Let_def)
  have "\<not> isWhiteSpace CHR ''-''" by (simp add: isWhiteSpace_def)
  then show "parseInt (CHR ''-'' # z) = Some (- int (digits_value 10 z))"
    using assms(1) nohex by (auto simp: parseInt_def tw Let_def)
qed

lemma parseInt_show_int: "parseInt (show_int n) = Some n"
proof -
  have sub: "set (show_nat m) \<subseteq> digit_char ` {..<10}" for m
    using show_nat_digits by blast
  show ?thesis
  proof (cases "n < 0")
    case True
    with parseInt_digits(2) [OF show_nat_nonempty sub, of "nat (- n)"] show ?thesis
      by (simp add: show_int_def digits_value_show_nat)
  next
    case False
    with parseInt_digits(1) [OF show_nat_nonempty sub, of "nat n"] show ?thesis
      by (simp add: show_int_def digits_value_show_nat)
  qed
qed

section \<open>One record and the list\<close>

lemma find_distinct_id:
  assumes "distinct (map item_id xs)" and "i < length xs" and "same_id ident (xs ! i)"
  shows "find (same_id ident) xs = Some (xs ! i)"
proof -
  have "findIndex (same_id ident) xs \<noteq> None"
    using assms(2,3) by (auto simp: findIndex_None)
  then obtain j where j: "findIndex (same_id ident) xs = Some j" by auto
  from findIndex_Some [OF j] have jl: "j < length xs" and js: "same_id ident (xs ! j)" by auto
  from js assms(3) have "item_id (xs ! j) = item_id (xs ! i)"
    by (simp add: same_id_def) (metis option.inject)
  with assms(1,2) jl have "j = i"
    using nth_eq_iff_index_eq [of "map item_id xs" j i] by simp
  with j show ?thesis by (simp add: find_findIndex)
qed

lemma photo_url_of_None:
  "photo_filename it \<noteq> Some [] \<Longrightarrow> (photo_url_of it = None) = (photo_filename it = None)"
  by (auto simp: photo_url_of_def truthy_def split: option.splits)

text \<open>
  Claim C9. In a store that the service has built from an empty one, for every stored record
  (at index \<open>i\<close> of the collection) and every identifier string that parses to its
  identifier, the decimal form of the identifier among them,
  \<^verbatim>\<open>GET /inventory/:id\<close> returns that record with its derived
  \<^verbatim>\<open>photo_url\<close>, the entry of \<^verbatim>\<open>GET /inventory\<close> at the same index is the
  same value, field by field, and its \<^verbatim>\<open>photo_url\<close> is null exactly when the
  record's \<^verbatim>\<open>photo_filename\<close> is.
\<close>
theorem get_one_agrees_with_list:
  assumes "readInventory d0 = []" and "d = fst (serve d0 trace)"
    and "i < length (readInventory d)"
    and "parseInt ident = Some (item_id (readInventory d ! i))"
  shows "snd (get_inventory_id ident e d) =
           \<lparr>status = 200,
            content = ItemJson (with_photo_url (readInventory d ! i) (photo_url_of (readInventory d ! i)))\<rparr> \<and>
         snd (get_inventory_id (show_int (item_id (readInventory d ! i))) e d) =
           \<lparr>status = 200,
            content = ItemJson (with_photo_url (readInventory d ! i) (photo_url_of (readInventory d ! i)))\<rparr> \<and>
         snd (get_inventory e2 d) =
           \<lparr>status = 200,
            content = ListJson (map (\<lambda>it. with_photo_url it (photo_url_of it)) (readInventory d))\<rparr> \<and>
         map (\<lambda>it. with_photo_url it (photo_url_of it)) (readInventory d) ! i =
           with_photo_url (readInventory d ! i) (photo_url_of (readInventory d ! i)) \<and>
         (photo_url (with_photo_url (readInventory d ! i) (photo_url_of (readInventory d ! i))) = None) =
           (photo_filename (readInventory d ! i) = None)"
proof -
  have ok: "store_ok d"
    using assms(1,2) by (simp add: store_ok_serve store_ok_empty)
  then have dist: "distinct (map item_id (readInventory d))"
    by (simp add: store_ok_def)
  have "readInventory d ! i \<in> set (readInventory d)"
    using assms(3) by simp
  with ok have photo: "photo_filename (readInventory d ! i) \<noteq> Some []"
    by (auto simp: store_ok_def list_all_iff)
  have found: "snd (get_inventory_id s e d) =
           \<lparr>status = 200,
            content = ItemJson (with_photo_url (readInventory d ! i) (photo_url_of (readInventory d ! i)))\<rparr>"
    if "parseInt s = Some (item_id (readInventory d ! i))" for s
  proof -
    have "same_id s (readInventory d ! i)"
      using that by (simp add: same_id_def)
    with dist assms(3) have "find (same_id s) (readInventory d) = Some (readInventory d ! i)"
      by (intro find_distinct_id)
    then show ?thesis by (simp add: get_inventory_id_def)
  qed
  note one = found [OF assms(4)] found [OF parseInt_show_int]
  have all: "snd (get_inventory e2 d) =
           \<lparr>status = 200,
            content = ListJson (map (\<lambda>it. with_photo_url it (photo_url_of it)) (readInventory d))\<rparr>"
    by (simp add: get_inventory_def)
  have url: "(photo_url (with_photo_url (readInventory d ! i) (photo_url_of (readInventory d ! i))) = None) =
           (photo_filename (readInventory d ! i) = None)"
    using photo by (simp add: with_photo_url_def photo_url_of_None)
  from one all url assms(3) show ?thesis by simp
qed

lemma serve_sample_trace:
  "fst (serve empty_disk sample_trace) =
     \<lparr>data_file = Some (JsonArray
        [\<lparr>item_id = 1, inventory_name = ''Laptop'', description = [],
          photo_filename = Some ''1700000000000-42.png'',
          created_at = ''2025-01-01T00:00:00.000Z''\<rparr>,
         \<lparr>item_id = 2, inventory_name = ''Phone'', description = [],
          photo_filename = None, created_at = ''2025-01-01T00:00:00.000Z''\<rparr>]),
      photo_dir = {''1700000000000-42.png''}\<rparr>"
  by (simp add: sample_trace_def app_register upload_single_def post_register_def fileFilter_def
      mimetype_def toLowerCase_def
      startsWith_def fileSize_limit_def uniqueName_def show_nat.simps digit_char_def
      writeInventory_def getNextId_def readInventory_cases truthy_def
      sample_env_def empty_disk_def sample_upload_def name_only_def empty_body_def Let_def)

theorem get_one_agrees_with_list_witness:
  "readInventory empty_disk = [] \<and>
   parseInt ''1'' = Some (item_id (readInventory (fst (serve empty_disk sample_trace)) ! 0)) \<and>
   parseInt ''2'' = Some (item_id (readInventory (fst (serve empty_disk sample_trace)) ! 1)) \<and>
   snd (get_inventory_id ''1'' (sample_env True) (fst (serve empty_disk sample_trace))) =
     \<lparr>status = 200,
      content = ItemJson
         \<lparr>item_id = 1, inventory_name = ''Laptop'', description = [],
          photo_filename = Some ''1700000000000-42.png'',
          created_at = ''2025-01-01T00:00:00.000Z'',
          photo_url = Some ''/inventory/1/photo''\<rparr>\<rparr> \<and>
   snd (get_inventory_id ''2'' (sample_env True) (fst (serve empty_disk sample_trace))) =
     \<lparr>status = 200,
      content = ItemJson
         \<lparr>item_id = 2, inventory_name = ''Phone'', description = [],
          photo_filename = None, created_at = ''2025-01-01T00:00:00.000Z'',
          photo_url = None\<rparr>\<rparr> \<and>
   snd (get_inventory (sample_env True) (fst (serve empty_disk sample_trace))) =
     \<lparr>status = 200,
      content = ListJson
        [\<lparr>item_id = 1, inventory_name = ''Laptop'', description = [],
          photo_filename = Some ''1700000000000-42.png'',
          created_at = ''2025-01-01T00:00:00.000Z'',
          photo_url = Some ''/inventory/1/photo''\<rparr>,
         \<lparr>item_id = 2, inventory_name = ''Phone'', description = [],
          photo_filename = None, created_at = ''2025-01-01T00:00:00.000Z'',
          photo_url = None\<rparr>]\<rparr>"
proof -
  have h: "readInventory empty_disk = []" by (simp add: readInventory_cases empty_disk_def)
  have l: "0 < length (readInventory (fst (serve empty_disk sample_trace)))"
    "1 < length (readInventory (fst (serve empty_disk sample_trace)))"
    by (simp_all add: serve_sample_trace readInventory_cases)
  have p: "parseInt ''1'' = Some (item_id (readInventory (fst (serve empty_disk sample_trace)) ! 0))"
    "parseInt ''2'' = Some (item_id (readInventory (fst (serve empty_disk sample_trace)) ! 1))"
    by (simp_all add: serve_sample_trace readInventory_cases parse_simps)
  show ?thesis
    using h p
      get_one_agrees_with_list [OF h refl l(1) p(1), of "sample_env True" "sample_env True"]
      get_one_agrees_with_list [OF h refl l(2) p(2), of "sample_env True" "sample_env True"]
    by (simp add: serve_sample_trace readInventory_cases with_photo_url_def photo_url_of_def
        truthy_def show_int_def show_nat.simps digit_char_def)
qed

end
